theory Spec2Isabelle
  imports Main
begin

section \<open>The dual-stream terminal viewer (repro.mjs)\<close>

text \<open>
  The script is single-threaded: every callback (a key handler, a scroll handler, the
  part of an async function between two awaits) runs to completion before the next one
  starts. The model is therefore a state record, one state transformer per source
  function, and lists of such steps for the two concurrent consumers.
\<close>

subsection \<open>JavaScript values and \<open>JSON.stringify\<close>\<close>

text \<open>
  The values the script serialises: stream parts, tool-call and tool-result records,
  and error causes. Numbers are restricted to integers; \<open>JError name message\<close> is an
  instance of \<open>Error\<close> (it has no enumerable property of its own). An object is the
  list of its enumerable properties in enumeration order. A BigInt is the value of
  this type that \<open>JSON.stringify\<close> refuses; an object graph with a cycle, which it
  refuses as well, is not a value of the type.
\<close>

datatype jsval =
    JNull
  | JBool bool
  | JNum int
  | JBigInt int
  | JStr string
  | JArr "jsval list"
  | JObj "(string \<times> jsval) list"
  | JError string string

text \<open>A thrown or rejected value: an error with its message and its \<open>cause\<close>
  property (\<open>None\<close> when the property is undefined).\<close>

datatype js_error = Error (message: string) (cause: "jsval option")

text \<open>The truthiness test of \<open>if (v)\<close>.\<close>

fun truthy :: "jsval \<Rightarrow> bool" where
  "truthy JNull = False"
| "truthy (JBool b) = b"
| "truthy (JNum n) = (n \<noteq> 0)"
| "truthy (JBigInt n) = (n \<noteq> 0)"
| "truthy (JStr s) = (s \<noteq> [])"
| "truthy (JArr xs) = True"
| "truthy (JObj ps) = True"
| "truthy (JError n m) = True"

fun digits :: "nat \<Rightarrow> string" where
  "digits n = (if n < 10 then [''0123456789'' ! n]
               else digits (n div 10) @ [''0123456789'' ! (n mod 10)])"

definition show_int :: "int \<Rightarrow> string" where
  "show_int i = (if i < 0 then CHR ''-'' # digits (nat (- i)) else digits (nat i))"

definition hex2 :: "nat \<Rightarrow> string" where
  "hex2 n = [''0123456789abcdef'' ! (n div 16 mod 16), ''0123456789abcdef'' ! (n mod 16)]"

text \<open>String quoting as \<open>JSON.stringify\<close> does it: the two-character escapes, and
  a four-digit hexadecimal escape for the other control characters.\<close>

definition quote_char :: "char \<Rightarrow> string" where
  "quote_char c =
     (if c = CHR 0x08 then [CHR 0x5C, CHR ''b'']
      else if c = CHR 0x09 then [CHR 0x5C, CHR ''t'']
      else if c = CHR 0x0A then [CHR 0x5C, CHR ''n'']
      else if c = CHR 0x0C then [CHR 0x5C, CHR ''f'']
      else if c = CHR 0x0D then [CHR 0x5C, CHR ''r'']
      else if c = CHR 0x22 then [CHR 0x5C, CHR 0x22]
      else if c = CHR 0x5C then [CHR 0x5C, CHR 0x5C]
      else if (of_char c :: nat) < 32
        then [CHR 0x5C, CHR ''u'', CHR ''0'', CHR ''0''] @ hex2 (of_char c)
      else [c])"

definition quote :: "string \<Rightarrow> string" where
  "quote s = [CHR 0x22] @ concat (map quote_char s) @ [CHR 0x22]"

text \<open>The serialised members of an array or object: the texts of all of them, or the
  error of the first one that fails.\<close>

fun collect :: "(js_error + string) list \<Rightarrow> js_error + string list" where
  "collect [] = Inr []"
| "collect (r # rs) =
     (case r of
        Inl e \<Rightarrow> Inl e
      | Inr x \<Rightarrow> (case collect rs of Inl e \<Rightarrow> Inl e | Inr xs \<Rightarrow> Inr (x # xs)))"

text \<open>\<open>Array.prototype.join\<close> on an array of strings.\<close>

fun join :: "string \<Rightarrow> string list \<Rightarrow> string" where
  "join sep [] = []"
| "join sep [x] = x"
| "join sep (x # y # ys) = x @ sep @ join sep (y # ys)"

definition wrap_items ::
  "string \<Rightarrow> string \<Rightarrow> string \<Rightarrow> string \<Rightarrow> string list \<Rightarrow> string" where
  "wrap_items opn cls gap ind items =
     (if items = [] then opn @ cls
      else if gap = [] then opn @ join '','' items @ cls
      else opn @ [CHR 0x0A] @ (ind @ gap) @ join ('','' @ [CHR 0x0A] @ ind @ gap) items
             @ [CHR 0x0A] @ ind @ cls)"

definition member :: "string \<Rightarrow> string \<Rightarrow> js_error + string \<Rightarrow> js_error + string" where
  "member gap k r =
     (case r of
        Inl e \<Rightarrow> Inl e
      | Inr str \<Rightarrow> Inr (quote k @ (if gap = [] then '':'' else '': '') @ str))"

text \<open>
  Serialisation with indentation unit \<open>gap\<close> at current indentation \<open>ind\<close>. A BigInt
  anywhere in the value makes \<open>JSON.stringify\<close> throw a TypeError.
\<close>

fun serialize :: "string \<Rightarrow> string \<Rightarrow> jsval \<Rightarrow> js_error + string" where
  "serialize gap ind JNull = Inr ''null''"
| "serialize gap ind (JBool b) = Inr (if b then ''true'' else ''false'')"
| "serialize gap ind (JNum n) = Inr (show_int n)"
| "serialize gap ind (JBigInt n) = Inl (Error ''Do not know how to serialize a BigInt'' None)"
| "serialize gap ind (JStr s) = Inr (quote s)"
| "serialize gap ind (JArr xs) =
     (case collect (map (serialize gap (ind @ gap)) xs) of
        Inl e \<Rightarrow> Inl e
      | Inr items \<Rightarrow> Inr (wrap_items ''['' '']'' gap ind items))"
| "serialize gap ind (JObj ps) =
     (case collect (map (\<lambda>(k, v). member gap k (serialize gap (ind @ gap) v)) ps) of
        Inl e \<Rightarrow> Inl e
      | Inr items \<Rightarrow> Inr (wrap_items ''{'' ''}'' gap ind items))"
| "serialize gap ind (JError n m) = Inr ''{}''"

text \<open>\<open>JSON.stringify(v, null, space)\<close> for a numeric \<open>space\<close>.\<close>

definition JSON_stringify :: "nat \<Rightarrow> jsval \<Rightarrow> js_error + string" where
  "JSON_stringify space v = serialize (replicate (min 10 space) CHR '' '') [] v"

subsection \<open>Formatting a part\<close>

text \<open>The replacer function of \<open>formatPart\<close> (lines 194-199).\<close>

definition replacer :: "string \<Rightarrow> jsval \<Rightarrow> jsval" where
  "replacer key value =
     (case value of
        JError n m \<Rightarrow>
          if key = ''error'' then JObj [(''name'', JStr n), (''message'', JStr m)] else value
      | _ \<Rightarrow> value)"

text \<open>
  \<open>JSON.stringify\<close> calls the replacer on every property, from the root (under the empty
  key) downwards, array elements under their index as key, and serialises what it returns.
  This replacer changes no array and no object, and what it returns for an error holds
  two strings, which it leaves as they are; so the traversal descends into arrays and
  objects and applies the replacer at the other values.
\<close>

fun replaced :: "string \<Rightarrow> jsval \<Rightarrow> jsval"
  and replaced_elems :: "nat \<Rightarrow> jsval list \<Rightarrow> jsval list"
  and replaced_props :: "(string \<times> jsval) list \<Rightarrow> (string \<times> jsval) list"
where
  "replaced key (JArr xs) = JArr (replaced_elems 0 xs)"
| "replaced key (JObj ps) = JObj (replaced_props ps)"
| "replaced key v = replacer key v"
| "replaced_elems i [] = []"
| "replaced_elems i (x # xs) = replaced (digits i) x # replaced_elems (Suc i) xs"
| "replaced_props [] = []"
| "replaced_props ((k, v) # ps) = (k, replaced k v) # replaced_props ps"

definition formatPart :: "jsval \<Rightarrow> js_error + string" where
  "formatPart part = JSON_stringify 2 (replaced [] part)"

subsection \<open>The two panels and the shared state\<close>

datatype box_id = leftBox | rightBox

text \<open>The box a scroll handler of lines 125-126 synchronises with.\<close>

fun other :: "box_id \<Rightarrow> box_id" where
  "other leftBox = rightBox"
| "other rightBox = leftBox"

text \<open>
  Modelled from the spec: the scrollable box of the terminal toolkit (the blessed
  library, which is not part of the repository). Following the spec's PanelState, a box
  holds its rendered content, its scroll position as a percentage in the range from 0
  to 100, and its viewport height.
\<close>

record box =
  content :: string
  scrollPerc :: int
  height :: int

text \<open>
  The program state: the module-level variables \<open>syncing\<close>, \<open>focusedBox\<close>,
  \<open>leftLines\<close> and \<open>rightLines\<close>, the two widgets, and three observations of
  effects: the number of \<open>screen.render()\<close> calls, \<open>guardLog\<close>, a history variable
  that records every value assigned to \<open>syncing\<close> in order, and \<open>scrollCalls\<close>, a
  history variable that records every call of \<open>setScrollPerc\<close> in order: the box it is
  made on and the percentage it asks for.
\<close>

record state =
  syncing :: bool
  boxes :: "box_id \<Rightarrow> box"
  focusedBox :: box_id
  leftLines :: "string list"
  rightLines :: "string list"
  renders :: nat
  guardLog :: "bool list"
  scrollCalls :: "(box_id \<times> int) list"

text \<open>
  Modelled from the spec: the operations of a box. The percentage is "always clamped
  to [0,100]"; \<open>getScrollPerc\<close> reads the stored percentage, \<open>storeScrollPerc\<close> is the
  state change of setScrollPercent ("updates position without altering content"), which
  also enters the call in \<open>scrollCalls\<close>, and \<open>setContent\<close> replaces the rendered content
  and nothing else.
\<close>

definition clampPerc :: "int \<Rightarrow> int" where
  "clampPerc p = max 0 (min 100 p)"

definition getScrollPerc :: "box_id \<Rightarrow> state \<Rightarrow> int" where
  "getScrollPerc b s = scrollPerc (boxes s b)"

definition storeScrollPerc :: "box_id \<Rightarrow> int \<Rightarrow> state \<Rightarrow> state" where
  "storeScrollPerc b p s =
     s\<lparr>boxes := (boxes s)(b := (boxes s b)\<lparr>scrollPerc := clampPerc p\<rparr>),
       scrollCalls := scrollCalls s @ [(b, p)]\<rparr>"

definition setContent :: "box_id \<Rightarrow> string \<Rightarrow> state \<Rightarrow> state" where
  "setContent b txt s = s\<lparr>boxes := (boxes s)(b := (boxes s b)\<lparr>content := txt\<rparr>)\<rparr>"

text \<open>\<open>screen.render()\<close>: of a render the model keeps that it happened.\<close>

definition screen_render :: "state \<Rightarrow> state" where
  "screen_render s = s\<lparr>renders := Suc (renders s)\<rparr>"

subsection \<open>Scroll synchronisation\<close>

text \<open>
  Modelled from the spec: \<open>setScrollPerc\<close> of a box stores the clamped position and
  then "triggers a scroll-changed notification", synchronously. From the source:
  \<open>emit_scroll\<close> runs the handler registered for that box (lines 125-126), and
  \<open>syncScroll\<close> is the function of lines 116-123. The three call each other, as they do
  in the program; the recursion ends because the nested call finds the guard held.
\<close>

function setScrollPerc :: "box_id \<Rightarrow> int \<Rightarrow> state \<Rightarrow> state"
  and emit_scroll :: "box_id \<Rightarrow> state \<Rightarrow> state"
  and syncScroll :: "box_id \<Rightarrow> box_id \<Rightarrow> state \<Rightarrow> state"
where
  "setScrollPerc b p s = emit_scroll b (storeScrollPerc b p s)"
| "emit_scroll leftBox s = syncScroll leftBox rightBox s"
| "emit_scroll rightBox s = syncScroll rightBox leftBox s"
| "syncScroll source target s =
     (if syncing s then s
      else
        let s1 = s\<lparr>syncing := True, guardLog := guardLog s @ [True]\<rparr>;
            scrollPercent = getScrollPerc source s1;
            s2 = setScrollPerc target scrollPercent s1;
            s3 = screen_render s2
        in s3\<lparr>syncing := False, guardLog := guardLog s3 @ [False]\<rparr>)"
  by pat_completeness auto
termination
  by (relation "measure (\<lambda>x. case x of
        Inl (b, p, s) \<Rightarrow> (if syncing s then 2 else 5)
      | Inr (Inl (b, s)) \<Rightarrow> (if syncing s then 1 else 4)
      | Inr (Inr (a, b, s)) \<Rightarrow> (if syncing s then 0 else 3))")
    (auto simp: storeScrollPerc_def)

declare setScrollPerc.simps [simp del] emit_scroll.simps [simp del] syncScroll.simps [simp del]

subsection \<open>Appending to a panel\<close>

definition logLeft :: "string \<Rightarrow> state \<Rightarrow> state" where
  "logLeft msg s =
     (let s1 = s\<lparr>leftLines := leftLines s @ [msg]\<rparr>;
          s2 = setContent leftBox (join [CHR 0x0A] (leftLines s1)) s1;
          s3 = setScrollPerc leftBox 100 s2
      in syncScroll leftBox rightBox s3)"

definition logRight :: "string \<Rightarrow> state \<Rightarrow> state" where
  "logRight msg s =
     (let s1 = s\<lparr>rightLines := rightLines s @ [msg]\<rparr>;
          s2 = setContent rightBox (join [CHR 0x0A] (rightLines s1)) s1;
          s3 = setScrollPerc rightBox 100 s2
      in syncScroll rightBox leftBox s3)"

subsection \<open>Key bindings\<close>

datatype key =
    Key_tab
  | Key_up | Key_k
  | Key_down | Key_j
  | Key_pageup
  | Key_pagedown
  | Key_home | Key_g
  | Key_end | Key_S_g
  | Key_q | Key_C_c

text \<open>
  Modelled from the spec: the toolkit's \<open>scroll(delta)\<close>, a move by \<open>delta\<close> lines,
  "expressed in terms of setScrollPercent". The percentage a box reaches by such a move
  depends on the toolkit's line geometry and is the parameter \<open>lineStep\<close>.
\<close>

definition scroll :: "(box \<Rightarrow> int \<Rightarrow> int) \<Rightarrow> box_id \<Rightarrow> int \<Rightarrow> state \<Rightarrow> state" where
  "scroll lineStep b delta s = setScrollPerc b (lineStep (boxes s b) delta) s"

text \<open>
  The handlers bound with \<open>screen.key\<close> (lines 132-174). A handler returns the next
  state, or the exit code when it ends the process. \<open>focus()\<close> on a box is represented
  by the variable \<open>focusedBox\<close> alone.
\<close>

fun screen_key :: "(box \<Rightarrow> int \<Rightarrow> int) \<Rightarrow> key \<Rightarrow> state \<Rightarrow> int + state" where
  "screen_key lineStep Key_tab s =
     Inr (screen_render
            (if focusedBox s = leftBox then s\<lparr>focusedBox := rightBox\<rparr>
             else s\<lparr>focusedBox := leftBox\<rparr>))"
| "screen_key lineStep Key_up s =
     Inr (syncScroll leftBox rightBox (scroll lineStep leftBox (- 1) s))"
| "screen_key lineStep Key_k s =
     Inr (syncScroll leftBox rightBox (scroll lineStep leftBox (- 1) s))"
| "screen_key lineStep Key_down s =
     Inr (syncScroll leftBox rightBox (scroll lineStep leftBox 1 s))"
| "screen_key lineStep Key_j s =
     Inr (syncScroll leftBox rightBox (scroll lineStep leftBox 1 s))"
| "screen_key lineStep Key_pageup s =
     Inr (syncScroll leftBox rightBox
            (scroll lineStep leftBox (- height (boxes s leftBox)) s))"
| "screen_key lineStep Key_pagedown s =
     Inr (syncScroll leftBox rightBox
            (scroll lineStep leftBox (height (boxes s leftBox)) s))"
| "screen_key lineStep Key_home s =
     Inr (syncScroll leftBox rightBox (setScrollPerc leftBox 0 s))"
| "screen_key lineStep Key_g s =
     Inr (syncScroll leftBox rightBox (setScrollPerc leftBox 0 s))"
| "screen_key lineStep Key_end s =
     Inr (syncScroll leftBox rightBox (setScrollPerc leftBox 100 s))"
| "screen_key lineStep Key_S_g s =
     Inr (syncScroll leftBox rightBox (setScrollPerc leftBox 100 s))"
| "screen_key lineStep Key_q s = Inl 0"
| "screen_key lineStep Key_C_c s = Inl 0"

definition scroll_keys :: "key list" where
  "scroll_keys = [Key_up, Key_k, Key_down, Key_j, Key_pageup, Key_pagedown,
                  Key_home, Key_g, Key_end, Key_S_g]"

text \<open>The percentage a global scroll key asks the left box to take.\<close>

fun key_target :: "(box \<Rightarrow> int \<Rightarrow> int) \<Rightarrow> key \<Rightarrow> box \<Rightarrow> int" where
  "key_target lineStep Key_up bx = lineStep bx (- 1)"
| "key_target lineStep Key_k bx = lineStep bx (- 1)"
| "key_target lineStep Key_down bx = lineStep bx 1"
| "key_target lineStep Key_j bx = lineStep bx 1"
| "key_target lineStep Key_pageup bx = lineStep bx (- height bx)"
| "key_target lineStep Key_pagedown bx = lineStep bx (height bx)"
| "key_target lineStep Key_home bx = 0"
| "key_target lineStep Key_g bx = 0"
| "key_target lineStep Key_end bx = 100"
| "key_target lineStep Key_S_g bx = 100"
| "key_target lineStep k bx = scrollPerc bx"

subsection \<open>Events of the running program\<close>

text \<open>
  The calls that reach the shared state: an append to the left or to the right panel
  (an effect of a consumer), a key press, and a scroll the toolkit performs on a box by
  itself (mouse wheel), which ends in the box's scroll event like any other.
\<close>

datatype effect = LogLeft string | LogRight string

fun perform :: "effect \<Rightarrow> state \<Rightarrow> state" where
  "perform (LogLeft msg) s = logLeft msg s"
| "perform (LogRight msg) s = logRight msg s"

definition performs :: "effect list \<Rightarrow> state \<Rightarrow> state" where
  "performs effs s = foldl (\<lambda>st e. perform e st) s effs"

datatype event = Append effect | Press key | Scrolled box_id int

fun react :: "(box \<Rightarrow> int \<Rightarrow> int) \<Rightarrow> event \<Rightarrow> state \<Rightarrow> int + state" where
  "react lineStep (Append e) s = Inr (perform e s)"
| "react lineStep (Press k) s = screen_key lineStep k s"
| "react lineStep (Scrolled b p) s = Inr (setScrollPerc b p s)"

fun run_events :: "(box \<Rightarrow> int \<Rightarrow> int) \<Rightarrow> event list \<Rightarrow> state \<Rightarrow> int + state" where
  "run_events lineStep [] s = Inr s"
| "run_events lineStep (e # es) s =
     (case react lineStep e s of
        Inl code \<Rightarrow> Inl code
      | Inr s' \<Rightarrow> run_events lineStep es s')"

text \<open>The guard log of a run in which no synchronisation nests: each write of
  \<open>true\<close> is followed at once by the write of \<open>false\<close> that ends it.\<close>

fun well_nested :: "bool list \<Rightarrow> bool" where
  "well_nested [] = True"
| "well_nested (True # False # bs) = well_nested bs"
| "well_nested bs = False"

definition guard_ok :: "state \<Rightarrow> bool" where
  "guard_ok s = (\<not> syncing s \<and> well_nested (guardLog s))"

subsection \<open>Startup: model selection\<close>

datatype provider = Anthropic | OpenAI

record model_handle =
  provider :: provider
  modelId :: string
  apiKey :: string

text \<open>An environment variable as \<open>if (process.env.X)\<close> sees it: its value when it is
  defined and not the empty string.\<close>

definition env_value :: "(string \<rightharpoonup> string) \<Rightarrow> string \<Rightarrow> string option" where
  "env_value env name =
     (case env name of
        None \<Rightarrow> None
      | Some v \<Rightarrow> if v = [] then None else Some v)"

text \<open>Lines 12-28: the selected model and its display name, or the lines written to
  standard error and the exit code.\<close>

definition selectModel ::
  "(string \<rightharpoonup> string) \<Rightarrow> (string list \<times> int) + (model_handle \<times> string)" where
  "selectModel env =
     (case env_value env ''ANTHROPIC_API_KEY'' of
        Some k \<Rightarrow>
          Inr (\<lparr>provider = Anthropic, modelId = ''claude-3-5-haiku-latest'', apiKey = k\<rparr>,
               ''Claude 3.5 Haiku'')
      | None \<Rightarrow>
          (case env_value env ''OPENAI_API_KEY'' of
             Some k \<Rightarrow>
               Inr (\<lparr>provider = OpenAI, modelId = ''gpt-4o-mini'', apiKey = k\<rparr>,
                    ''GPT-4o Mini'')
           | None \<Rightarrow>
               Inl ([''Error: Neither ANTHROPIC_API_KEY nor OPENAI_API_KEY is set.'',
                     ''Please set one of them in your .env file.''], 1)))"

text \<open>
  The process after the synchronous part of the script (lines 1-261): it has exited, or
  the user interface stands. \<open>rows\<close> is the height of the terminal; both boxes are one
  row lower. The state is the one after the first \<open>screen.render()\<close> of line 261.
\<close>

record ui =
  title :: string
  model :: model_handle
  modelName :: string
  st :: state

datatype process = Exited "string list" int | Running ui

definition init_state :: "int \<Rightarrow> state" where
  "init_state rows =
     \<lparr>syncing = False,
      boxes = (\<lambda>b. \<lparr>content = [], scrollPerc = 0, height = rows - 1\<rparr>),
      focusedBox = leftBox,
      leftLines = [],
      rightLines = [],
      renders = 1,
      guardLog = [],
      scrollCalls = []\<rparr>"

definition startup :: "int \<Rightarrow> (string \<rightharpoonup> string) \<Rightarrow> process" where
  "startup rows env =
     (case selectModel env of
        Inl (errs, code) \<Rightarrow> Exited errs code
      | Inr (m, name) \<Rightarrow>
          Running \<lparr>title = ''Braintrust Async Generator Repro - '' @ name,
                   model = m, modelName = name, st = init_state rows\<rparr>)"

subsection \<open>The greeting tool\<close>

text \<open>
  An async generator run to its end: the calls it makes and the values it yields, in
  order. The type of a call is a parameter, as \<open>logFn\<close> is one of
  \<open>createGreetingTool\<close>. \<open>execute\<close> is the generator function of lines 43-55, applied to
  the \<open>name\<close> of its input object; in the record of a tool it is the field \<open>run\<close>.
\<close>

datatype 'c gen_step = Call 'c | Yield jsval

definition execute :: "(string \<Rightarrow> 'c) \<Rightarrow> string \<Rightarrow> 'c gen_step list" where
  "execute logFn name =
     [Call (logFn (''[execute] Starting generator for: '' @ name)),
      Yield (JObj [(''status'', JStr ''starting''), (''message'', JStr ''Preparing greeting...'')]),
      Call (logFn ''[execute] Yielded starting status''),
      Yield (JObj [(''status'', JStr ''processing''),
                   (''message'', JStr (''Looking up '' @ name @ ''...''))]),
      Call (logFn ''[execute] Yielded processing status''),
      Yield (JObj [(''status'', JStr ''generating''), (''message'', JStr ''Generating greeting...'')]),
      Call (logFn ''[execute] Yielded generating status''),
      Call (logFn ''[execute] Returning final result''),
      Yield (JObj [(''status'', JStr ''done''), (''greeting'', JStr (''Hello, '' @ name @ ''!''))])]"

record 'c tool =
  description :: string
  inputSchema :: jsval
  run :: "string \<Rightarrow> 'c gen_step list"

definition createGreetingTool :: "(string \<Rightarrow> 'c) \<Rightarrow> 'c tool" where
  "createGreetingTool logFn =
     \<lparr>description = ''A tool that streams a greeting message'',
      inputSchema =
        JObj [(''type'', JStr ''object''),
              (''properties'',
                 JObj [(''name'', JObj [(''type'', JStr ''string''),
                                       (''description'', JStr ''The name to greet'')])]),
              (''required'', JArr [JStr ''name''])],
      run = execute logFn\<rparr>"

fun yields :: "'c gen_step list \<Rightarrow> jsval list" where
  "yields [] = []"
| "yields (Call c # gs) = yields gs"
| "yields (Yield v # gs) = v # yields gs"

subsection \<open>The streaming calls\<close>

text \<open>
  What a streaming call hands to its consumer. \<open>fullStream\<close> lists, in the order they
  happen, the parts the \<open>for await\<close> loop receives and the calls of \<open>logFn\<close> the
  consumer's tool makes while the SDK drives its generator. \<open>streamError\<close> is the error
  the iteration raises after them, if it does. A loop that stops early (formatting a
  part throws) leaves the rest of the list unread: the stream is taken to be cancelled
  with it, so no later call of the tool is made. The three other fields are the outcomes
  of the promises \<open>result.text\<close> (the field \<open>resultText\<close>), \<open>result.toolCalls\<close> and
  \<open>result.toolResults\<close>.
\<close>

datatype stream_item = Part jsval | ToolLog string

record stream_result =
  fullStream :: "stream_item list"
  streamError :: "js_error option"
  resultText :: "js_error + string"
  toolCalls :: "js_error + jsval"
  toolResults :: "js_error + jsval"

text \<open>
  Modelled from the spec: how the SDK (which is not part of the repository) surfaces a
  tool execution in the stream: "each yielded value surfaces as a distinct StreamEvent
  to the consumer". \<open>toolPart\<close> is the event the SDK builds around a yielded value.
\<close>

fun surface :: "(jsval \<Rightarrow> jsval) \<Rightarrow> stream_item gen_step \<Rightarrow> stream_item" where
  "surface toolPart (Call c) = c"
| "surface toolPart (Yield v) = Part (toolPart v)"

fun stream_parts :: "stream_item list \<Rightarrow> jsval list" where
  "stream_parts [] = []"
| "stream_parts (Part p # items) = p # stream_parts items"
| "stream_parts (ToolLog msg # items) = stream_parts items"

definition tool_stream :: "(jsval \<Rightarrow> jsval) \<Rightarrow> stream_item tool \<Rightarrow> string \<Rightarrow> stream_item list" where
  "tool_stream toolPart t name = map (surface toolPart) (run t name)"

subsection \<open>The two consumers\<close>

text \<open>
  An async function touches the shared state only through \<open>logLeft\<close> and \<open>logRight\<close>.
  Its run is the list of these calls in order, and the error it rejects with
  (\<open>None\<close> when it resolves). A statement \<open>logFn(expr)\<close> is \<open>Inr\<close> of the call when
  \<open>expr\<close> evaluates, and \<open>Inl\<close> of the error when evaluating \<open>expr\<close> throws: the call is
  then not made and the function stops there.
\<close>

type_synonym outcome = "effect list \<times> js_error option"

fun exec :: "(js_error + effect) list \<Rightarrow> outcome" where
  "exec [] = ([], None)"
| "exec (Inl e # stmts) = ([], Some e)"
| "exec (Inr eff # stmts) = (case exec stmts of (effs, r) \<Rightarrow> (eff # effs, r))"

definition logged :: "(string \<Rightarrow> effect) \<Rightarrow> js_error + string \<Rightarrow> js_error + effect" where
  "logged logFn r = (case r of Inl e \<Rightarrow> Inl e | Inr txt \<Rightarrow> Inr (logFn txt))"

definition andThen :: "outcome \<Rightarrow> outcome \<Rightarrow> outcome" where
  "andThen a b =
     (case a of
        (effs, Some e) \<Rightarrow> (effs, Some e)
      | (effs, None) \<Rightarrow> (case b of (effs', r) \<Rightarrow> (effs @ effs', r)))"

text \<open>
  The body of the \<open>for await\<close> loop (lines 214-218 and 247-251) for one item of the
  stream, with the panel's log function as parameter; a call of the tool's \<open>logFn\<close>
  reaches the same log function (lines 210 and 243).
\<close>

fun loop_body :: "(string \<Rightarrow> effect) \<Rightarrow> stream_item \<Rightarrow> (js_error + effect) list" where
  "loop_body logFn (Part part) =
     [Inr (logFn ''{cyan-fg}Part:{/cyan-fg}''),
      logged logFn (formatPart part),
      Inr (logFn [])]"
| "loop_body logFn (ToolLog msg) = [Inr (logFn msg)]"

definition forAwait :: "(string \<Rightarrow> effect) \<Rightarrow> stream_result \<Rightarrow> outcome" where
  "forAwait logFn result =
     exec (concat (map (loop_body logFn) (fullStream result))
           @ (case streamError result of None \<Rightarrow> [] | Some e \<Rightarrow> [Inl e]))"

text \<open>
  The two consumers (lines 203-234 and 236-259). The parameter is the object the
  streaming call returns for the request the source fixes (the model, the prompt and
  the greeting tool made with the consumer's log function).
\<close>

definition testWithoutWrapping :: "stream_result \<Rightarrow> outcome" where
  "testWithoutWrapping result =
     andThen
       (exec [Inr (LogLeft (''{yellow-fg}Starting test (ai.streamText)...{/yellow-fg}''
                             @ [CHR 0x0A]))])
    (andThen (forAwait LogLeft result)
       (case resultText result of
          Inl e \<Rightarrow> ([], Some e)
        | Inr finalText \<Rightarrow>
       (case toolCalls result of
          Inl e \<Rightarrow> ([], Some e)
        | Inr calls \<Rightarrow>
       (case toolResults result of
          Inl e \<Rightarrow> ([], Some e)
        | Inr results \<Rightarrow>
            exec
              [Inr (LogLeft ''{yellow-fg}=== Final Text ==={/yellow-fg}''),
               Inr (LogLeft (if finalText = [] then ''(empty)'' else finalText)),
               Inr (LogLeft []),
               Inr (LogLeft ''{yellow-fg}=== Tool Calls ==={/yellow-fg}''),
               logged LogLeft (formatPart calls),
               Inr (LogLeft []),
               Inr (LogLeft ''{yellow-fg}=== Tool Results ==={/yellow-fg}''),
               logged LogLeft (formatPart results),
               Inr (LogLeft []),
               Inr (LogLeft ''{green-fg}Done!{/green-fg}'')]))))"

definition testWithWrapping :: "stream_result \<Rightarrow> outcome" where
  "testWithWrapping result =
     andThen
       (exec [Inr (LogRight (''{yellow-fg}Starting test (wrappedStreamText)...{/yellow-fg}''
                              @ [CHR 0x0A]))])
    (andThen (forAwait LogRight result)
       (case toolResults result of
          Inl e \<Rightarrow> ([], Some e)
        | Inr results \<Rightarrow>
            exec
              [Inr (LogRight ''{yellow-fg}=== Tool Results ==={/yellow-fg}''),
               logged LogRight (formatPart results),
               Inr (LogRight []),
               Inr (LogRight ''{green-fg}Done!{/green-fg}'')]))"

subsection \<open>Running both consumers\<close>

text \<open>The two \<open>catch\<close> callbacks of lines 265-272, with the log function as parameter.\<close>

definition onRejected :: "(string \<Rightarrow> effect) \<Rightarrow> js_error \<Rightarrow> outcome" where
  "onRejected logFn e =
     exec (Inr (logFn (''{red-fg}Error: '' @ message e @ ''{/red-fg}''))
           # (case cause e of
                None \<Rightarrow> []
              | Some c \<Rightarrow>
                  if truthy c
                  then [logged logFn
                          (case JSON_stringify 2 c of
                             Inl err \<Rightarrow> Inl err
                           | Inr txt \<Rightarrow> Inr (''Cause: '' @ txt))]
                  else []))"

text \<open>\<open>p.catch(h)\<close>: the run of \<open>p\<close>, followed by the run of \<open>h\<close> when \<open>p\<close> rejects;
  it rejects only when \<open>h\<close> throws.\<close>

definition catch_with :: "outcome \<Rightarrow> (js_error \<Rightarrow> outcome) \<Rightarrow> outcome" where
  "catch_with p h =
     (case p of
        (effs, None) \<Rightarrow> (effs, None)
      | (effs, Some e) \<Rightarrow> (case h e of (effs', r) \<Rightarrow> (effs @ effs', r)))"

definition leftTask :: "stream_result \<Rightarrow> outcome" where
  "leftTask result = catch_with (testWithoutWrapping result) (onRejected LogLeft)"

definition rightTask :: "stream_result \<Rightarrow> outcome" where
  "rightTask result = catch_with (testWithWrapping result) (onRejected LogRight)"

text \<open>
  The event loop runs the calls of the two tasks in some interleaving that keeps the
  order of each task. A schedule says whose call comes next (\<open>True\<close>: the left
  task's) until one task has no call left.
\<close>

fun interleave :: "bool list \<Rightarrow> 'a list \<Rightarrow> 'a list \<Rightarrow> 'a list" where
  "interleave sched [] ys = ys"
| "interleave sched xs [] = xs"
| "interleave [] xs ys = xs @ ys"
| "interleave (True # sched) (x # xs) ys = x # interleave sched xs ys"
| "interleave (False # sched) xs (y # ys) = y # interleave sched xs ys"

definition quitNotice :: string where
  "quitNotice = CHR 0x0A # ''{bold}Press q to quit{/bold}''"

text \<open>
  Lines 264-276. \<open>Promise.all\<close> fulfils when both of its promises fulfil and rejects as
  soon as one of them rejects. The result is the state after the \<open>then\<close> callback, which
  runs after the last call of both tasks. It is \<open>None\<close> when \<open>Promise.all\<close> rejects: the
  callback never runs, no code of the script handles the rejection, and what the runtime
  does with an unhandled rejection is outside the model.
\<close>

definition main ::
  "bool list \<Rightarrow> stream_result \<Rightarrow> stream_result \<Rightarrow> state \<Rightarrow> state option" where
  "main sched resL resR s =
     (case leftTask resL of (effsL, outL) \<Rightarrow>
      case rightTask resR of (effsR, outR) \<Rightarrow>
        if outL = None \<and> outR = None
        then Some (logRight quitNotice
                     (logLeft quitNotice (performs (interleave sched effsL effsR) s)))
        else None)"

text \<open>The messages a list of calls appends to one panel.\<close>

fun left_msgs :: "effect list \<Rightarrow> string list" where
  "left_msgs [] = []"
| "left_msgs (LogLeft m # effs) = m # left_msgs effs"
| "left_msgs (LogRight m # effs) = left_msgs effs"

fun right_msgs :: "effect list \<Rightarrow> string list" where
  "right_msgs [] = []"
| "right_msgs (LogLeft m # effs) = right_msgs effs"
| "right_msgs (LogRight m # effs) = m # right_msgs effs"


text \<open>The errors on which a \<open>catch\<close> callback of lines 265-272 returns: those whose
  cause is absent, falsy, or can be serialised.\<close>

definition handler_completes :: "js_error \<Rightarrow> bool" where
  "handler_completes e =
     (case cause e of
        None \<Rightarrow> True
      | Some c \<Rightarrow>
          if truthy c
          then (case JSON_stringify 2 c of Inl err \<Rightarrow> False | Inr txt \<Rightarrow> True)
          else True)"

subsection \<open>Sample inputs\<close>

text \<open>A call whose stream delivers one part (an empty array) and whose three promises
  resolve; a call whose stream raises \<open>e\<close> at once; and a way the SDK may wrap a value
  a tool yields.\<close>

definition sample_result :: stream_result where
  "sample_result =
     \<lparr>fullStream = [Part (JArr [])],
      streamError = None,
      resultText = Inr ''Hello, World!'',
      toolCalls = Inr (JArr []),
      toolResults = Inr (JArr [])\<rparr>"

definition failing_result :: "js_error \<Rightarrow> stream_result" where
  "failing_result e =
     \<lparr>fullStream = [],
      streamError = Some e,
      resultText = Inr [],
      toolCalls = Inr (JArr []),
      toolResults = Inr (JArr [])\<rparr>"

definition sample_toolPart :: "jsval \<Rightarrow> jsval" where
  "sample_toolPart v = JObj [(''type'', JStr ''tool-result''), (''output'', v)]"

section \<open>Properties\<close>

subsection \<open>What one call does, with the guard held and with the guard free\<close>

lemma syncScroll_held: "syncing s \<Longrightarrow> syncScroll a b s = s"
  by (simp add: syncScroll.simps)

lemma setScrollPerc_held: "syncing s \<Longrightarrow> setScrollPerc b p s = storeScrollPerc b p s"
  by (cases b) (simp_all add: setScrollPerc.simps emit_scroll.simps syncScroll.simps storeScrollPerc_def)

lemma syncScroll_free:
  "\<not> syncing s \<Longrightarrow>
   syncScroll a b s =
     s\<lparr>boxes := (boxes s)(b := (boxes s b)\<lparr>scrollPerc := clampPerc (scrollPerc (boxes s a))\<rparr>),
       renders := Suc (renders s),
       guardLog := guardLog s @ [True, False],
       scrollCalls := scrollCalls s @ [(b, scrollPerc (boxes s a))]\<rparr>"
  by (simp add: syncScroll.simps[of a b s] Let_def setScrollPerc_held getScrollPerc_def
        storeScrollPerc_def screen_render_def)

lemma clampPerc_idem: "clampPerc (clampPerc p) = clampPerc p"
  by (simp add: clampPerc_def)

lemma setScrollPerc_free:
  "\<not> syncing s \<Longrightarrow>
   setScrollPerc b p s =
     s\<lparr>boxes := (boxes s)
          (leftBox := (boxes s leftBox)\<lparr>scrollPerc := clampPerc p\<rparr>,
           rightBox := (boxes s rightBox)\<lparr>scrollPerc := clampPerc p\<rparr>),
       renders := Suc (renders s),
       guardLog := guardLog s @ [True, False],
       scrollCalls := scrollCalls s @ [(b, p), (other b, clampPerc p)]\<rparr>"
  by (cases b)
    (simp_all add: setScrollPerc.simps emit_scroll.simps syncScroll_free storeScrollPerc_def
       clampPerc_idem fun_upd_twist)

lemma logLeft_free:
  "\<not> syncing s \<Longrightarrow>
   logLeft msg s =
     s\<lparr>leftLines := leftLines s @ [msg],
       boxes := (boxes s)
          (leftBox := (boxes s leftBox)
             \<lparr>content := join [CHR 0x0A] (leftLines s @ [msg]), scrollPerc := 100\<rparr>,
           rightBox := (boxes s rightBox)\<lparr>scrollPerc := 100\<rparr>),
       renders := Suc (Suc (renders s)),
       guardLog := guardLog s @ [True, False, True, False],
       scrollCalls := scrollCalls s @ [(leftBox, 100), (rightBox, 100), (rightBox, 100)]\<rparr>"
  by (simp add: logLeft_def Let_def setContent_def setScrollPerc_free syncScroll_free
        clampPerc_def)

lemma logRight_free:
  "\<not> syncing s \<Longrightarrow>
   logRight msg s =
     s\<lparr>rightLines := rightLines s @ [msg],
       boxes := (boxes s)
          (leftBox := (boxes s leftBox)\<lparr>scrollPerc := 100\<rparr>,
           rightBox := (boxes s rightBox)
             \<lparr>content := join [CHR 0x0A] (rightLines s @ [msg]), scrollPerc := 100\<rparr>),
       renders := Suc (Suc (renders s)),
       guardLog := guardLog s @ [True, False, True, False],
       scrollCalls := scrollCalls s @ [(rightBox, 100), (leftBox, 100), (leftBox, 100)]\<rparr>"
  by (simp add: logRight_def Let_def setContent_def setScrollPerc_free syncScroll_free
        clampPerc_def fun_upd_twist)

lemma logLeft_held:
  "syncing s \<Longrightarrow>
   logLeft msg s =
     s\<lparr>leftLines := leftLines s @ [msg],
       boxes := (boxes s)(leftBox := (boxes s leftBox)\<lparr>content := join [CHR 0x0A] (leftLines s @ [msg]), scrollPerc := 100\<rparr>),
       scrollCalls := scrollCalls s @ [(leftBox, 100)]\<rparr>"
  by (simp add: logLeft_def Let_def setContent_def setScrollPerc_held syncScroll_held storeScrollPerc_def clampPerc_def)

lemma logRight_held:
  "syncing s \<Longrightarrow>
   logRight msg s =
     s\<lparr>rightLines := rightLines s @ [msg],
       boxes := (boxes s)(rightBox := (boxes s rightBox)\<lparr>content := join [CHR 0x0A] (rightLines s @ [msg]), scrollPerc := 100\<rparr>),
       scrollCalls := scrollCalls s @ [(rightBox, 100)]\<rparr>"
  by (simp add: logRight_def Let_def setContent_def setScrollPerc_held syncScroll_held storeScrollPerc_def clampPerc_def)

subsection \<open>Sequences of appends\<close>

lemma perform_keeps_guard_free: "\<not> syncing s \<Longrightarrow> \<not> syncing (perform e s)"
  by (cases e) (simp_all add: logLeft_free logRight_free)

lemma performs_snoc: "performs (effs @ [e]) s = perform e (performs effs s)"
  by (simp add: performs_def)

lemma performs_keeps_guard_free: "\<not> syncing s \<Longrightarrow> \<not> syncing (performs effs s)"
  by (induction effs rule: rev_induct) (simp_all add: performs_def perform_keeps_guard_free)

lemma left_msgs_append: "left_msgs (xs @ ys) = left_msgs xs @ left_msgs ys"
  by (induction xs rule: left_msgs.induct) simp_all

lemma right_msgs_append: "right_msgs (xs @ ys) = right_msgs xs @ right_msgs ys"
  by (induction xs rule: right_msgs.induct) simp_all

lemma perform_lines:
  "\<not> syncing s \<Longrightarrow>
     leftLines (perform e s) = leftLines s @ left_msgs [e] \<and>
     rightLines (perform e s) = rightLines s @ right_msgs [e]"
  by (cases e) (simp_all add: logLeft_free logRight_free)

lemma performs_lines:
  "\<not> syncing s \<Longrightarrow>
     leftLines (performs effs s) = leftLines s @ left_msgs effs \<and>
     rightLines (performs effs s) = rightLines s @ right_msgs effs"
proof (induction effs rule: rev_induct)
  case Nil
  show ?case by (simp add: performs_def)
next
  case (snoc e effs)
  have free: "\<not> syncing (performs effs s)"
    using snoc.prems by (rule performs_keeps_guard_free)
  show ?case
    using snoc.IH [OF snoc.prems] perform_lines [OF free, of e]
    by (simp add: performs_snoc left_msgs_append right_msgs_append)
qed

lemma perform_content:
  assumes "\<not> syncing s"
    and "content (boxes s leftBox) = join [CHR 0x0A] (leftLines s)"
    and "content (boxes s rightBox) = join [CHR 0x0A] (rightLines s)"
  shows "content (boxes (perform e s) leftBox) = join [CHR 0x0A] (leftLines (perform e s)) \<and>
         content (boxes (perform e s) rightBox) = join [CHR 0x0A] (rightLines (perform e s))"
  using assms by (cases e) (simp_all add: logLeft_free logRight_free)

lemma performs_content:
  assumes "\<not> syncing s"
    and "content (boxes s leftBox) = join [CHR 0x0A] (leftLines s)"
    and "content (boxes s rightBox) = join [CHR 0x0A] (rightLines s)"
  shows "content (boxes (performs effs s) leftBox) = join [CHR 0x0A] (leftLines (performs effs s)) \<and>
         content (boxes (performs effs s) rightBox) = join [CHR 0x0A] (rightLines (performs effs s))"
proof (induction effs rule: rev_induct)
  case Nil
  show ?case using assms by (simp add: performs_def)
next
  case (snoc e effs)
  have free: "\<not> syncing (performs effs s)"
    using assms(1) by (rule performs_keeps_guard_free)
  show ?case
    using perform_content [OF free, of e] snoc.IH by (simp add: performs_snoc)
qed

lemma logLeft_reads_100: "getScrollPerc leftBox (logLeft msg s) = 100"
  by (cases "syncing s") (simp_all add: logLeft_free logLeft_held getScrollPerc_def)

lemma logRight_reads_100: "getScrollPerc rightBox (logRight msg s) = 100"
  by (cases "syncing s") (simp_all add: logRight_free logRight_held getScrollPerc_def)

text \<open>
  Claim C7 (append contract). Starting from the empty panels, after any sequence of
  appends (to either panel, in any order) the lines of a panel are exactly the messages
  appended to it, in call order, and its content is these lines joined by newlines;
  nothing is removed or reordered. Right after an append, the scroll percentage of the
  panel appended to reads 100, in every state.
\<close>

theorem append_contract:
  "leftLines (performs effs (init_state rows)) = left_msgs effs \<and>
   content (boxes (performs effs (init_state rows)) leftBox) = join [CHR 0x0A] (left_msgs effs) \<and>
   rightLines (performs effs (init_state rows)) = right_msgs effs \<and>
   content (boxes (performs effs (init_state rows)) rightBox) = join [CHR 0x0A] (right_msgs effs) \<and>
   getScrollPerc leftBox (logLeft msg s) = 100 \<and>
   getScrollPerc rightBox (logRight msg s) = 100"
proof -
  have free: "\<not> syncing (init_state rows)"
    by (simp add: init_state_def)
  have lines: "leftLines (performs effs (init_state rows)) = left_msgs effs"
    "rightLines (performs effs (init_state rows)) = right_msgs effs"
    using performs_lines [OF free, of effs] by (simp_all add: init_state_def)
  have "content (boxes (performs effs (init_state rows)) leftBox)
          = join [CHR 0x0A] (leftLines (performs effs (init_state rows))) \<and>
        content (boxes (performs effs (init_state rows)) rightBox)
          = join [CHR 0x0A] (rightLines (performs effs (init_state rows)))"
    by (rule performs_content) (simp_all add: init_state_def)
  with lines show ?thesis
    by (simp add: logLeft_reads_100 logRight_reads_100)
qed

subsection \<open>The guard\<close>

lemma well_nested_append: "well_nested xs \<Longrightarrow> well_nested ys \<Longrightarrow> well_nested (xs @ ys)"
  by (induction xs rule: well_nested.induct) simp_all

lemma guard_ok_setScrollPerc: "guard_ok s \<Longrightarrow> guard_ok (setScrollPerc b p s)"
  by (simp add: guard_ok_def setScrollPerc_free well_nested_append)

lemma guard_ok_syncScroll: "guard_ok s \<Longrightarrow> guard_ok (syncScroll a b s)"
  by (simp add: guard_ok_def syncScroll_free well_nested_append)

lemma guard_ok_perform: "guard_ok s \<Longrightarrow> guard_ok (perform e s)"
  by (cases e) (simp_all add: guard_ok_def logLeft_free logRight_free well_nested_append)

lemma guard_ok_screen_key:
  "guard_ok s \<Longrightarrow> screen_key lineStep k s = Inr s' \<Longrightarrow> guard_ok s'"
  by (cases k)
    (auto simp: scroll_def intro!: guard_ok_syncScroll guard_ok_setScrollPerc,
     auto simp: guard_ok_def screen_render_def)

lemma screen_key_exit: "screen_key lineStep k s = Inl code \<Longrightarrow> code = 0"
  by (cases k) auto

lemma guard_ok_react: "guard_ok s \<Longrightarrow> react lineStep e s = Inr s' \<Longrightarrow> guard_ok s'"
  by (cases e) (auto simp: guard_ok_perform guard_ok_setScrollPerc guard_ok_screen_key)

lemma react_exit: "react lineStep e s = Inl code \<Longrightarrow> code = 0"
  by (cases e) (auto dest: screen_key_exit)

lemma guard_ok_run_events:
  "guard_ok s \<Longrightarrow>
   (case run_events lineStep evs s of Inl code \<Rightarrow> code = 0 | Inr s' \<Rightarrow> guard_ok s')"
proof (induction evs arbitrary: s)
  case Nil
  then show ?case by simp
next
  case (Cons e evs)
  show ?case
  proof (cases "react lineStep e s")
    case (Inl code)
    then show ?thesis by (simp add: react_exit)
  next
    case (Inr s1)
    with Cons.prems have "guard_ok s1" by (simp add: guard_ok_react)
    with Cons.IH Inr show ?thesis by simp
  qed
qed

text \<open>
  Claim C5 (the guard never nests). From a state whose guard is free, after any
  sequence of events (scrolls of either box in any order, appends, key presses) the
  guard is free again and the history of its writes is a sequence of pairs
  true, false: no synchronisation began while another was in progress. One
  synchronisation from a free guard writes true, then false. A \<open>syncScroll\<close> call
  entered while the guard is held returns the state unchanged.
\<close>

theorem guard_never_nests:
  assumes "\<not> syncing s" and "well_nested (guardLog s)"
  shows "(case run_events lineStep evs s of
            Inl code \<Rightarrow> code = 0
          | Inr s' \<Rightarrow> \<not> syncing s' \<and> well_nested (guardLog s')) \<and>
         \<not> syncing (syncScroll a b s) \<and>
         guardLog (syncScroll a b s) = guardLog s @ [True, False] \<and>
         (syncing t \<longrightarrow> syncScroll a b t = t)"
proof -
  have "guard_ok s"
    using assms by (simp add: guard_ok_def)
  then have "case run_events lineStep evs s of Inl code \<Rightarrow> code = 0 | Inr s' \<Rightarrow> guard_ok s'"
    by (rule guard_ok_run_events)
  then have run: "case run_events lineStep evs s of
            Inl code \<Rightarrow> code = 0
          | Inr s' \<Rightarrow> \<not> syncing s' \<and> well_nested (guardLog s')"
    by (simp add: guard_ok_def split: sum.splits)
  from assms(1) have "\<not> syncing (syncScroll a b s)"
    and "guardLog (syncScroll a b s) = guardLog s @ [True, False]"
    by (simp_all add: syncScroll_free)
  with run show ?thesis
    by (simp add: syncScroll_held)
qed

theorem guard_never_nests_witness:
  "\<not> syncing (init_state 24) \<and>
   well_nested (guardLog (init_state 24)) \<and>
   (case run_events (\<lambda>bx d. scrollPerc bx + 5 * d)
           [Scrolled leftBox 30, Scrolled rightBox 70, Append (LogRight ''x''), Press Key_down]
           (init_state 24) of
      Inl code \<Rightarrow> code = 0
    | Inr s' \<Rightarrow> \<not> syncing s' \<and> well_nested (guardLog s')) \<and>
   guardLog (syncScroll leftBox rightBox (init_state 24)) = [True, False] \<and>
   syncScroll leftBox rightBox ((init_state 24)\<lparr>syncing := True\<rparr>)
     = (init_state 24)\<lparr>syncing := True\<rparr>"
proof -
  have free: "\<not> syncing (init_state 24)"
    and nested: "well_nested (guardLog (init_state 24))"
    by (simp_all add: init_state_def)
  show ?thesis
    using free nested
      guard_never_nests [OF free nested, of "\<lambda>bx d. scrollPerc bx + 5 * d"
        "[Scrolled leftBox 30, Scrolled rightBox 70, Append (LogRight ''x''), Press Key_down]"
        leftBox rightBox "(init_state 24)\<lparr>syncing := True\<rparr>"]
    by (simp add: init_state_def)
qed

subsection \<open>Mirrored scrolling\<close>

text \<open>
  Claim C6 (scroll mirroring). When a scroll percentage \<open>p\<close> is set on either panel
  while the guard is free, then after the synchronisation this triggers both panels
  read the same percentage, \<open>p\<close> clamped to the range from 0 to 100. The statement
  holds for every content of the two panels, and no content changes.
\<close>

theorem scroll_mirroring:
  assumes "\<not> syncing s"
  shows "getScrollPerc leftBox (setScrollPerc a p s) = clampPerc p \<and>
         getScrollPerc rightBox (setScrollPerc a p s) = clampPerc p \<and>
         content (boxes (setScrollPerc a p s) x) = content (boxes s x)"
  using assms by (cases x) (simp_all add: setScrollPerc_free getScrollPerc_def)

theorem scroll_mirroring_witness:
  "\<not> syncing (logRight ''c'' (logLeft ''b'' (logLeft ''a'' (init_state 24)))) \<and>
   leftLines (logRight ''c'' (logLeft ''b'' (logLeft ''a'' (init_state 24)))) = [''a'', ''b''] \<and>
   rightLines (logRight ''c'' (logLeft ''b'' (logLeft ''a'' (init_state 24)))) = [''c''] \<and>
   getScrollPerc leftBox
     (setScrollPerc leftBox 40 (logRight ''c'' (logLeft ''b'' (logLeft ''a'' (init_state 24))))) = 40 \<and>
   getScrollPerc rightBox
     (setScrollPerc leftBox 40 (logRight ''c'' (logLeft ''b'' (logLeft ''a'' (init_state 24))))) = 40"
proof -
  have free: "\<not> syncing (logRight ''c'' (logLeft ''b'' (logLeft ''a'' (init_state 24))))"
    by (simp add: logLeft_free logRight_free init_state_def)
  show ?thesis
    using free scroll_mirroring [OF free, of leftBox 40 rightBox]
    by (simp add: logLeft_free logRight_free init_state_def clampPerc_def)
qed

lemma scroll_key_closed_form:
  assumes "k \<in> set scroll_keys" and "\<not> syncing s"
  shows "screen_key lineStep k s =
           Inr (s\<lparr>boxes := (boxes s)
                  (leftBox := (boxes s leftBox)
                     \<lparr>scrollPerc := clampPerc (key_target lineStep k (boxes s leftBox))\<rparr>,
                   rightBox := (boxes s rightBox)
                     \<lparr>scrollPerc := clampPerc (key_target lineStep k (boxes s leftBox))\<rparr>),
                 renders := Suc (Suc (renders s)),
                 guardLog := guardLog s @ [True, False, True, False],
                 scrollCalls := scrollCalls s @
                   [(leftBox, key_target lineStep k (boxes s leftBox)),
                    (rightBox, clampPerc (key_target lineStep k (boxes s leftBox))),
                    (rightBox, clampPerc (key_target lineStep k (boxes s leftBox)))]\<rparr>)"
  using assms
  by (auto simp: scroll_keys_def scroll_def setScrollPerc_free syncScroll_free clampPerc_idem)

text \<open>
  Claim C8 (global scroll keys). For every global scroll key and every state with the
  guard free, whichever box has the focus: the handler makes three calls of
  \<open>setScrollPerc\<close>, the first on the left box with the position the key asks for
  (computed from the left box), the two others on the right box with the percentage the
  left box then reads: the one of the synchronisation the scroll event of the left box
  starts, and the one of the handler's own call of \<open>syncScroll\<close>. No call is made on
  the focused box because it has the focus. After the handler the left box is at the
  position asked for, the right box reads the same percentage, the focus is unchanged,
  and the outcome is the same for every focus.
\<close>

theorem global_scroll_keys_target_left:
  assumes "k \<in> set scroll_keys" and "\<not> syncing s"
  shows "\<exists>s'. screen_key lineStep k s = Inr s' \<and>
           scrollCalls s' = scrollCalls s @
             [(leftBox, key_target lineStep k (boxes s leftBox)),
              (rightBox, clampPerc (key_target lineStep k (boxes s leftBox))),
              (rightBox, clampPerc (key_target lineStep k (boxes s leftBox)))] \<and>
           getScrollPerc leftBox s' = clampPerc (key_target lineStep k (boxes s leftBox)) \<and>
           getScrollPerc rightBox s' = getScrollPerc leftBox s' \<and>
           focusedBox s' = focusedBox s \<and>
           screen_key lineStep k (s\<lparr>focusedBox := f\<rparr>) = Inr (s'\<lparr>focusedBox := f\<rparr>)"
proof -
  have free: "\<not> syncing (s\<lparr>focusedBox := f\<rparr>)"
    using assms(2) by simp
  show ?thesis
    by (simp add: scroll_key_closed_form [OF assms] scroll_key_closed_form [OF assms(1) free]
          getScrollPerc_def)
qed

theorem global_scroll_keys_target_left_witness:
  "Key_pageup \<in> set scroll_keys \<and>
   \<not> syncing ((logLeft ''a'' (init_state 24))\<lparr>focusedBox := rightBox\<rparr>) \<and>
   (\<exists>s'. screen_key (\<lambda>bx d. scrollPerc bx + 2 * d) Key_pageup
             ((logLeft ''a'' (init_state 24))\<lparr>focusedBox := rightBox\<rparr>) = Inr s' \<and>
          scrollCalls s' =
            [(leftBox, 100), (rightBox, 100), (rightBox, 100),
             (leftBox, 54), (rightBox, 54), (rightBox, 54)] \<and>
          getScrollPerc leftBox s' = 54 \<and>
          getScrollPerc rightBox s' = 54 \<and>
          focusedBox s' = rightBox)"
proof -
  have bound: "Key_pageup \<in> set scroll_keys"
    by (simp add: scroll_keys_def)
  have free: "\<not> syncing ((logLeft ''a'' (init_state 24))\<lparr>focusedBox := rightBox\<rparr>)"
    by (simp add: logLeft_free init_state_def)
  show ?thesis
    using bound free
      global_scroll_keys_target_left [OF bound free, of "\<lambda>bx d. scrollPerc bx + 2 * d" rightBox]
    by (simp add: logLeft_free init_state_def clampPerc_def)
qed

text \<open>
  Claim C10 (an append also moves the other panel). After an append to one panel
  with the guard free, the other panel's scroll percentage equals that of the panel
  appended to, while the other panel's lines and content are unchanged.
\<close>

theorem append_syncs_other_panel:
  assumes "\<not> syncing s"
  shows "getScrollPerc rightBox (logLeft msg s) = getScrollPerc leftBox (logLeft msg s) \<and>
         rightLines (logLeft msg s) = rightLines s \<and>
         content (boxes (logLeft msg s) rightBox) = content (boxes s rightBox) \<and>
         getScrollPerc leftBox (logRight msg s) = getScrollPerc rightBox (logRight msg s) \<and>
         leftLines (logRight msg s) = leftLines s \<and>
         content (boxes (logRight msg s) leftBox) = content (boxes s leftBox)"
  using assms by (simp add: logLeft_free logRight_free getScrollPerc_def)

theorem append_syncs_other_panel_witness:
  "\<not> syncing (init_state 24) \<and>
   getScrollPerc rightBox (init_state 24) = 0 \<and>
   getScrollPerc rightBox (logLeft ''hello'' (init_state 24)) = 100 \<and>
   getScrollPerc leftBox (logLeft ''hello'' (init_state 24)) = 100 \<and>
   rightLines (logLeft ''hello'' (init_state 24)) = [] \<and>
   content (boxes (logLeft ''hello'' (init_state 24)) rightBox) = []"
proof -
  have free: "\<not> syncing (init_state 24)"
    by (simp add: init_state_def)
  show ?thesis
    using free append_syncs_other_panel [OF free, of "''hello''"]
    by (simp add: init_state_def getScrollPerc_def logLeft_free)
qed

subsection \<open>Startup\<close>

text \<open>
  Claim C4 (model selection), as amended: a variable counts when it is set to a
  non-empty value. If ANTHROPIC_API_KEY has a non-empty value, the Anthropic model is
  selected and the title shows its name, whatever OPENAI_API_KEY is; otherwise, if
  OPENAI_API_KEY has a non-empty value, the OpenAI model is selected; if neither has,
  the process writes the two error lines to standard error and exits with code 1, and
  no user interface exists.
\<close>

theorem model_selection:
  "(env ''ANTHROPIC_API_KEY'' = Some k \<and> k \<noteq> [] \<longrightarrow>
      startup rows env =
        Running \<lparr>title = ''Braintrust Async Generator Repro - Claude 3.5 Haiku'',
                 model = \<lparr>provider = Anthropic, modelId = ''claude-3-5-haiku-latest'', apiKey = k\<rparr>,
                 modelName = ''Claude 3.5 Haiku'',
                 st = init_state rows\<rparr>) \<and>
   ((env ''ANTHROPIC_API_KEY'' = None \<or> env ''ANTHROPIC_API_KEY'' = Some []) \<and>
    env ''OPENAI_API_KEY'' = Some k \<and> k \<noteq> [] \<longrightarrow>
      startup rows env =
        Running \<lparr>title = ''Braintrust Async Generator Repro - GPT-4o Mini'',
                 model = \<lparr>provider = OpenAI, modelId = ''gpt-4o-mini'', apiKey = k\<rparr>,
                 modelName = ''GPT-4o Mini'',
                 st = init_state rows\<rparr>) \<and>
   ((env ''ANTHROPIC_API_KEY'' = None \<or> env ''ANTHROPIC_API_KEY'' = Some []) \<and>
    (env ''OPENAI_API_KEY'' = None \<or> env ''OPENAI_API_KEY'' = Some []) \<longrightarrow>
      startup rows env =
        Exited [''Error: Neither ANTHROPIC_API_KEY nor OPENAI_API_KEY is set.'',
                ''Please set one of them in your .env file.''] 1)"
  by (auto simp: startup_def selectModel_def env_value_def)

theorem model_selection_witness:
  "startup 24 [''ANTHROPIC_API_KEY'' \<mapsto> ''sk-ant-1'', ''OPENAI_API_KEY'' \<mapsto> ''sk-2''] =
     Running \<lparr>title = ''Braintrust Async Generator Repro - Claude 3.5 Haiku'',
              model = \<lparr>provider = Anthropic, modelId = ''claude-3-5-haiku-latest'',
                       apiKey = ''sk-ant-1''\<rparr>,
              modelName = ''Claude 3.5 Haiku'',
              st = init_state 24\<rparr> \<and>
   startup 24 [''OPENAI_API_KEY'' \<mapsto> ''sk-2''] =
     Running \<lparr>title = ''Braintrust Async Generator Repro - GPT-4o Mini'',
              model = \<lparr>provider = OpenAI, modelId = ''gpt-4o-mini'', apiKey = ''sk-2''\<rparr>,
              modelName = ''GPT-4o Mini'',
              st = init_state 24\<rparr> \<and>
   startup 24 Map.empty =
     Exited [''Error: Neither ANTHROPIC_API_KEY nor OPENAI_API_KEY is set.'',
             ''Please set one of them in your .env file.''] 1"
  using model_selection [of "[''ANTHROPIC_API_KEY'' \<mapsto> ''sk-ant-1'', ''OPENAI_API_KEY'' \<mapsto> ''sk-2'']" "''sk-ant-1''" 24]
    model_selection [of "[''OPENAI_API_KEY'' \<mapsto> ''sk-2'']" "''sk-2''" 24]
    model_selection [of Map.empty "[]" 24]
  by simp

text \<open>
  Read with "set" as "defined", the claim fails: with ANTHROPIC_API_KEY defined as the
  empty string (a blank line of the .env file) the OpenAI model is selected when
  OPENAI_API_KEY has a value, and the process exits with code 1 when it has none.
\<close>

theorem model_selection_counterexample:
  "[''ANTHROPIC_API_KEY'' \<mapsto> [], ''OPENAI_API_KEY'' \<mapsto> ''sk-2''] ''ANTHROPIC_API_KEY'' = Some [] \<and>
   startup 24 [''ANTHROPIC_API_KEY'' \<mapsto> [], ''OPENAI_API_KEY'' \<mapsto> ''sk-2''] =
     Running \<lparr>title = ''Braintrust Async Generator Repro - GPT-4o Mini'',
              model = \<lparr>provider = OpenAI, modelId = ''gpt-4o-mini'', apiKey = ''sk-2''\<rparr>,
              modelName = ''GPT-4o Mini'',
              st = init_state 24\<rparr> \<and>
   startup 24 [''ANTHROPIC_API_KEY'' \<mapsto> []] =
     Exited [''Error: Neither ANTHROPIC_API_KEY nor OPENAI_API_KEY is set.'',
             ''Please set one of them in your .env file.''] 1"
  by (simp add: startup_def selectModel_def env_value_def)

subsection \<open>The calls of a task stay on its own panel\<close>

lemma exec_effects: "set (fst (exec stmts)) \<subseteq> {eff. Inr eff \<in> set stmts}"
  by (induction stmts rule: exec.induct) (auto split: prod.splits)

lemma effects_exec:
  "(\<And>eff. Inr eff \<in> set stmts \<Longrightarrow> eff \<in> S) \<Longrightarrow> set (fst (exec stmts)) \<subseteq> S"
  using exec_effects [of stmts] by auto

lemma effects_andThen:
  "set (fst a) \<subseteq> S \<Longrightarrow> set (fst b) \<subseteq> S \<Longrightarrow> set (fst (andThen a b)) \<subseteq> S"
  by (auto simp: andThen_def split: prod.splits option.splits)

lemma effects_catch_with:
  assumes "set (fst p) \<subseteq> S" and "\<And>e. set (fst (h e)) \<subseteq> S"
  shows "set (fst (catch_with p h)) \<subseteq> S"
proof (cases p)
  case (Pair effs r)
  show ?thesis
  proof (cases r)
    case None
    with Pair assms(1) show ?thesis by (simp add: catch_with_def)
  next
    case (Some e)
    with Pair assms(1) assms(2) [of e] show ?thesis
      by (auto simp: catch_with_def split: prod.splits)
  qed
qed

lemma loop_body_effects: "Inr eff \<in> set (loop_body logFn item) \<Longrightarrow> eff \<in> range logFn"
  by (cases item) (auto simp: logged_def split: sum.splits)

lemma effects_forAwait: "set (fst (forAwait logFn result)) \<subseteq> range logFn"
  unfolding forAwait_def
  by (rule effects_exec) (auto dest: loop_body_effects split: option.splits)

lemma effects_onRejected: "set (fst (onRejected logFn e)) \<subseteq> range logFn"
  unfolding onRejected_def
  by (rule effects_exec) (auto simp: logged_def split: option.splits sum.splits if_splits)

lemma effects_testWithoutWrapping: "set (fst (testWithoutWrapping result)) \<subseteq> range LogLeft"
  unfolding testWithoutWrapping_def
  by (intro effects_andThen effects_forAwait effects_exec)
     (auto simp: logged_def split: sum.splits dest!: subsetD [OF exec_effects])

lemma effects_testWithWrapping: "set (fst (testWithWrapping result)) \<subseteq> range LogRight"
  unfolding testWithWrapping_def
  by (intro effects_andThen effects_forAwait effects_exec)
     (auto simp: logged_def split: sum.splits dest!: subsetD [OF exec_effects])

lemma effects_leftTask: "set (fst (leftTask result)) \<subseteq> range LogLeft"
  unfolding leftTask_def
  by (intro effects_catch_with effects_testWithoutWrapping effects_onRejected)

lemma effects_rightTask: "set (fst (rightTask result)) \<subseteq> range LogRight"
  unfolding rightTask_def
  by (intro effects_catch_with effects_testWithWrapping effects_onRejected)

lemma only_left: "set effs \<subseteq> range LogLeft \<Longrightarrow> right_msgs effs = []"
  by (induction effs rule: right_msgs.induct) auto

lemma only_right: "set effs \<subseteq> range LogRight \<Longrightarrow> left_msgs effs = []"
  by (induction effs rule: left_msgs.induct) auto

lemma left_msgs_Cons: "left_msgs (e # effs) = left_msgs [e] @ left_msgs effs"
  by (cases e) simp_all

lemma right_msgs_Cons: "right_msgs (e # effs) = right_msgs [e] @ right_msgs effs"
  by (cases e) simp_all

lemma interleave_left_msgs:
  "left_msgs ys = [] \<Longrightarrow> left_msgs (interleave sched xs ys) = left_msgs xs"
proof (induction sched xs ys rule: interleave.induct)
  case (1 sched ys)
  then show ?case by simp
next
  case (2 sched v va)
  then show ?case by simp
next
  case (3 v va vb vc)
  then show ?case
    using left_msgs_append [of "v # va" "vb # vc"] by simp
next
  case (4 sched x xs v va)
  then show ?case
    using left_msgs_Cons [of x "interleave sched xs (v # va)"] left_msgs_Cons [of x xs]
    by simp
next
  case (5 sched v va y ys)
  from 5(2) have "left_msgs [y] = []" and "left_msgs ys = []"
    using left_msgs_Cons [of y ys] by simp_all
  with 5(1) show ?case
    using left_msgs_Cons [of y "interleave sched (v # va) ys"] by simp
qed

lemma interleave_right_msgs:
  "right_msgs xs = [] \<Longrightarrow> right_msgs (interleave sched xs ys) = right_msgs ys"
proof (induction sched xs ys rule: interleave.induct)
  case (1 sched ys)
  then show ?case by simp
next
  case (2 sched v va)
  then show ?case by simp
next
  case (3 v va vb vc)
  then show ?case
    using right_msgs_append [of "v # va" "vb # vc"] by simp
next
  case (4 sched x xs v va)
  from 4(2) have "right_msgs [x] = []" and "right_msgs xs = []"
    using right_msgs_Cons [of x xs] by simp_all
  with 4(1) show ?case
    using right_msgs_Cons [of x "interleave sched xs (v # va)"] by simp
next
  case (5 sched v va y ys)
  then show ?case
    using right_msgs_Cons [of y "interleave sched (v # va) ys"] right_msgs_Cons [of y ys]
    by simp
qed

lemma main_lines:
  "map_option leftLines (main sched resL resR (init_state rows)) =
     (if snd (leftTask resL) = None \<and> snd (rightTask resR) = None
      then Some (left_msgs (fst (leftTask resL)) @ [quitNotice]) else None) \<and>
   map_option rightLines (main sched resL resR (init_state rows)) =
     (if snd (leftTask resL) = None \<and> snd (rightTask resR) = None
      then Some (right_msgs (fst (rightTask resR)) @ [quitNotice]) else None)"
proof -
  obtain effsL outL where L: "leftTask resL = (effsL, outL)" by (cases "leftTask resL")
  obtain effsR outR where R: "rightTask resR = (effsR, outR)" by (cases "rightTask resR")
  let ?s = "performs (interleave sched effsL effsR) (init_state rows)"
  have free0: "\<not> syncing (init_state rows)" by (simp add: init_state_def)
  have free: "\<not> syncing ?s" using free0 by (rule performs_keeps_guard_free)
  have noR: "right_msgs effsL = []"
    using effects_leftTask [of resL] L by (simp add: only_left)
  have noL: "left_msgs effsR = []"
    using effects_rightTask [of resR] R by (simp add: only_right)
  have lines: "leftLines ?s = left_msgs effsL" "rightLines ?s = right_msgs effsR"
    using performs_lines [OF free0, of "interleave sched effsL effsR"]
    by (simp_all add: interleave_left_msgs [OF noL] interleave_right_msgs [OF noR] init_state_def)
  show ?thesis
    using lines free
    by (simp add: main_def L R logLeft_free logRight_free)
qed

lemma main_rejected:
  "snd (leftTask resL) \<noteq> None \<or> snd (rightTask resR) \<noteq> None \<Longrightarrow> main sched resL resR s = None"
  by (cases "leftTask resL"; cases "rightTask resR") (auto simp: main_def)

subsection \<open>How a consumer and its error handler end\<close>



lemma testWithoutWrapping_ok:
  assumes "forAwait LogLeft result = (effs, None)"
    and "resultText result = Inr finalText"
    and "toolCalls result = Inr calls"
    and "toolResults result = Inr results"
    and "formatPart calls = Inr callsText"
    and "formatPart results = Inr resultsText"
  shows "testWithoutWrapping result =
    (LogLeft (''{yellow-fg}Starting test (ai.streamText)...{/yellow-fg}'' @ [CHR 0x0A]) # effs @
     [LogLeft ''{yellow-fg}=== Final Text ==={/yellow-fg}'',
      LogLeft (if finalText = [] then ''(empty)'' else finalText),
      LogLeft [],
      LogLeft ''{yellow-fg}=== Tool Calls ==={/yellow-fg}'',
      LogLeft callsText,
      LogLeft [],
      LogLeft ''{yellow-fg}=== Tool Results ==={/yellow-fg}'',
      LogLeft resultsText,
      LogLeft [],
      LogLeft ''{green-fg}Done!{/green-fg}''], None)"
  using assms by (simp add: testWithoutWrapping_def andThen_def logged_def)

lemma testWithWrapping_ok:
  assumes "forAwait LogRight result = (effs, None)"
    and "toolResults result = Inr results"
    and "formatPart results = Inr resultsText"
  shows "testWithWrapping result =
    (LogRight (''{yellow-fg}Starting test (wrappedStreamText)...{/yellow-fg}'' @ [CHR 0x0A]) # effs @
     [LogRight ''{yellow-fg}=== Tool Results ==={/yellow-fg}'',
      LogRight resultsText,
      LogRight [],
      LogRight ''{green-fg}Done!{/green-fg}''], None)"
  using assms by (simp add: testWithWrapping_def andThen_def logged_def)








subsection \<open>The outcome of a task\<close>

lemma leftTask_ok: "testWithoutWrapping r = (effs, None) \<Longrightarrow> leftTask r = (effs, None)"
  by (simp add: leftTask_def catch_with_def)

lemma rightTask_ok: "testWithWrapping r = (effs, None) \<Longrightarrow> rightTask r = (effs, None)"
  by (simp add: rightTask_def catch_with_def)



lemma onRejected_completes: "snd (onRejected logFn e) = None \<longleftrightarrow> handler_completes e"
  by (auto simp: onRejected_def handler_completes_def logged_def split: option.splits sum.splits)

lemma catch_with_snd:
  "snd (catch_with p h) = (case snd p of None \<Rightarrow> None | Some e \<Rightarrow> snd (h e))"
  by (cases p) (simp add: catch_with_def split: option.splits prod.splits)

lemma leftTask_fulfils:
  "snd (leftTask r) = None \<longleftrightarrow>
     (case snd (testWithoutWrapping r) of None \<Rightarrow> True | Some e \<Rightarrow> handler_completes e)"
  by (simp add: leftTask_def catch_with_snd onRejected_completes split: option.splits)

lemma rightTask_fulfils:
  "snd (rightTask r) = None \<longleftrightarrow>
     (case snd (testWithWrapping r) of None \<Rightarrow> True | Some e \<Rightarrow> handler_completes e)"
  by (simp add: rightTask_def catch_with_snd onRejected_completes split: option.splits)

lemma testWithWrapping_ignores:
  "testWithWrapping (r\<lparr>resultText := x, toolCalls := y\<rparr>) = testWithWrapping r"
  by (simp add: testWithWrapping_def forAwait_def)

lemma formatPart_empty_array: "formatPart (JArr []) = Inr ''[]''"
  by (simp add: formatPart_def JSON_stringify_def wrap_items_def)



lemma stringify_bigint:
  "JSON_stringify 2 (JBigInt n) = Inl (Error ''Do not know how to serialize a BigInt'' None)"
  by (simp add: JSON_stringify_def)


lemma sample_left:
  "testWithoutWrapping sample_result =
     ([LogLeft (''{yellow-fg}Starting test (ai.streamText)...{/yellow-fg}'' @ [CHR 0x0A]),
       LogLeft ''{cyan-fg}Part:{/cyan-fg}'', LogLeft ''[]'', LogLeft [],
       LogLeft ''{yellow-fg}=== Final Text ==={/yellow-fg}'', LogLeft ''Hello, World!'', LogLeft [],
       LogLeft ''{yellow-fg}=== Tool Calls ==={/yellow-fg}'', LogLeft ''[]'', LogLeft [],
       LogLeft ''{yellow-fg}=== Tool Results ==={/yellow-fg}'', LogLeft ''[]'', LogLeft [],
       LogLeft ''{green-fg}Done!{/green-fg}''], None)"
  by (simp add: testWithoutWrapping_def andThen_def forAwait_def logged_def
        formatPart_empty_array sample_result_def)

lemma sample_right:
  "testWithWrapping sample_result =
     ([LogRight (''{yellow-fg}Starting test (wrappedStreamText)...{/yellow-fg}'' @ [CHR 0x0A]),
       LogRight ''{cyan-fg}Part:{/cyan-fg}'', LogRight ''[]'', LogRight [],
       LogRight ''{yellow-fg}=== Tool Results ==={/yellow-fg}'', LogRight ''[]'', LogRight [],
       LogRight ''{green-fg}Done!{/green-fg}''], None)"
  by (simp add: testWithWrapping_def andThen_def forAwait_def logged_def
        formatPart_empty_array sample_result_def)


lemma failing_right:
  "testWithWrapping (failing_result e) =
     ([LogRight (''{yellow-fg}Starting test (wrappedStreamText)...{/yellow-fg}'' @ [CHR 0x0A])], Some e)"
  by (simp add: testWithWrapping_def andThen_def forAwait_def failing_result_def)

subsection \<open>The consumers\<close>

text \<open>
  Claim C1 (follow-up retrievals), as amended. After its event stream completes, the
  unwrapped consumer awaits the final text, the tool-call records and the tool-result
  records; when all three resolve and the two records can be serialised, it appends the
  Final Text, Tool Calls and Tool Results sections to its panel, in this order, then
  its Done line, and resolves. After its event stream completes, the wrapped consumer
  awaits the tool-result records only; when they resolve and can be serialised, it
  appends the Tool Results section alone, then its Done line, and resolves. The wrapped
  consumer never retrieves the final text or the tool-call records: its run is the same
  whatever they hold.
\<close>

theorem followup_sections:
  "(forAwait LogLeft resL = (effsL, None) \<and>
    resultText resL = Inr finalText \<and>
    toolCalls resL = Inr calls \<and>
    toolResults resL = Inr results \<and>
    formatPart calls = Inr callsText \<and>
    formatPart results = Inr resultsText \<longrightarrow>
      testWithoutWrapping resL =
        (LogLeft (''{yellow-fg}Starting test (ai.streamText)...{/yellow-fg}'' @ [CHR 0x0A])
           # effsL @
         [LogLeft ''{yellow-fg}=== Final Text ==={/yellow-fg}'',
          LogLeft (if finalText = [] then ''(empty)'' else finalText),
          LogLeft [],
          LogLeft ''{yellow-fg}=== Tool Calls ==={/yellow-fg}'',
          LogLeft callsText,
          LogLeft [],
          LogLeft ''{yellow-fg}=== Tool Results ==={/yellow-fg}'',
          LogLeft resultsText,
          LogLeft [],
          LogLeft ''{green-fg}Done!{/green-fg}''], None)) \<and>
   (forAwait LogRight resR = (effsR, None) \<and>
    toolResults resR = Inr resultsR \<and>
    formatPart resultsR = Inr resultsRText \<longrightarrow>
      testWithWrapping resR =
        (LogRight (''{yellow-fg}Starting test (wrappedStreamText)...{/yellow-fg}'' @ [CHR 0x0A])
           # effsR @
         [LogRight ''{yellow-fg}=== Tool Results ==={/yellow-fg}'',
          LogRight resultsRText,
          LogRight [],
          LogRight ''{green-fg}Done!{/green-fg}''], None)) \<and>
   testWithWrapping (resR\<lparr>resultText := x, toolCalls := y\<rparr>) = testWithWrapping resR"
  by (simp add: testWithoutWrapping_ok testWithWrapping_ok testWithWrapping_ignores)

theorem followup_sections_witness:
  "testWithoutWrapping sample_result =
     ([LogLeft (''{yellow-fg}Starting test (ai.streamText)...{/yellow-fg}'' @ [CHR 0x0A]),
       LogLeft ''{cyan-fg}Part:{/cyan-fg}'', LogLeft ''[]'', LogLeft [],
       LogLeft ''{yellow-fg}=== Final Text ==={/yellow-fg}'', LogLeft ''Hello, World!'', LogLeft [],
       LogLeft ''{yellow-fg}=== Tool Calls ==={/yellow-fg}'', LogLeft ''[]'', LogLeft [],
       LogLeft ''{yellow-fg}=== Tool Results ==={/yellow-fg}'', LogLeft ''[]'', LogLeft [],
       LogLeft ''{green-fg}Done!{/green-fg}''], None) \<and>
   testWithWrapping sample_result =
     ([LogRight (''{yellow-fg}Starting test (wrappedStreamText)...{/yellow-fg}'' @ [CHR 0x0A]),
       LogRight ''{cyan-fg}Part:{/cyan-fg}'', LogRight ''[]'', LogRight [],
       LogRight ''{yellow-fg}=== Tool Results ==={/yellow-fg}'', LogRight ''[]'', LogRight [],
       LogRight ''{green-fg}Done!{/green-fg}''], None)"
proof -
  have h1: "forAwait LogLeft sample_result
              = ([LogLeft ''{cyan-fg}Part:{/cyan-fg}'', LogLeft ''[]'', LogLeft []], None)"
    by (simp add: sample_result_def forAwait_def logged_def formatPart_empty_array)
  have h2: "resultText sample_result = Inr ''Hello, World!''"
    and h3: "toolCalls sample_result = Inr (JArr [])"
    and h4: "toolResults sample_result = Inr (JArr [])"
    by (simp_all add: sample_result_def)
  have h7: "forAwait LogRight sample_result
              = ([LogRight ''{cyan-fg}Part:{/cyan-fg}'', LogRight ''[]'', LogRight []], None)"
    by (simp add: sample_result_def forAwait_def logged_def formatPart_empty_array)
  show ?thesis
    using followup_sections
      [of sample_result "[LogLeft ''{cyan-fg}Part:{/cyan-fg}'', LogLeft ''[]'', LogLeft []]"
          "''Hello, World!''" "JArr []" "JArr []" "''[]''" "''[]''"
          sample_result "[LogRight ''{cyan-fg}Part:{/cyan-fg}'', LogRight ''[]'', LogRight []]"
          "JArr []" "''[]''"]
    by (simp add: h1 h2 h3 h4 h7 formatPart_empty_array)
qed

text \<open>
  The claim as stated fails for the wrapped consumer: on a call whose final text and
  tool-call records are there to retrieve, its panel gets the tool-result section and
  no other.
\<close>

theorem followup_sections_counterexample:
  "resultText sample_result = Inr ''Hello, World!'' \<and>
   toolCalls sample_result = Inr (JArr []) \<and>
   map_option rightLines (main [] sample_result sample_result (init_state 24)) =
     Some [''{yellow-fg}Starting test (wrappedStreamText)...{/yellow-fg}'' @ [CHR 0x0A],
           ''{cyan-fg}Part:{/cyan-fg}'', ''[]'', [],
           ''{yellow-fg}=== Tool Results ==={/yellow-fg}'', ''[]'', [],
           ''{green-fg}Done!{/green-fg}'',
           quitNotice]"
proof -
  have "map_option rightLines (main [] sample_result sample_result (init_state 24)) =
     Some [''{yellow-fg}Starting test (wrappedStreamText)...{/yellow-fg}'' @ [CHR 0x0A],
           ''{cyan-fg}Part:{/cyan-fg}'', ''[]'', [],
           ''{yellow-fg}=== Tool Results ==={/yellow-fg}'', ''[]'', [],
           ''{green-fg}Done!{/green-fg}'',
           quitNotice]"
    by (simp add: main_lines rightTask_ok [OF sample_right] leftTask_ok [OF sample_left])
  moreover have "resultText sample_result = Inr ''Hello, World!''"
    and "toolCalls sample_result = Inr (JArr [])"
    by (simp_all add: sample_result_def)
  ultimately show ?thesis by simp
qed




text \<open>
  The join of lines 264-276 when every \<open>catch\<close> callback that runs returns: for every
  outcome of the two consumers the quit notice is the last line of both panels, after
  every line of both tasks.
\<close>

lemma join_fulfils:
  assumes "case snd (testWithoutWrapping resL) of None \<Rightarrow> True | Some e \<Rightarrow> handler_completes e"
    and "case snd (testWithWrapping resR) of None \<Rightarrow> True | Some e \<Rightarrow> handler_completes e"
  shows "map_option leftLines (main sched resL resR (init_state rows))
           = Some (left_msgs (fst (leftTask resL)) @ [quitNotice])"
    and "map_option rightLines (main sched resL resR (init_state rows))
           = Some (right_msgs (fst (rightTask resR)) @ [quitNotice])"
  using assms main_lines [of sched resL resR rows]
  by (simp_all add: leftTask_fulfils rightTask_fulfils)

text \<open>The join when a \<open>catch\<close> callback throws: \<open>Promise.all\<close> rejects, whatever the
  other consumer does.\<close>

lemma join_rejects:
  assumes "snd (testWithoutWrapping resL) = Some e \<or> snd (testWithWrapping resR) = Some e"
    and "\<not> handler_completes e"
  shows "main sched resL resR s = None"
  using assms by (auto intro!: main_rejected simp: leftTask_fulfils rightTask_fulfils)

text \<open>
  Claim C3 (the quit notice). The claim says that for every combination of outcomes of
  the two consumers the notice is appended to both panels once both tasks have settled.
  The program does not do so on this input: the unwrapped consumer succeeds, and the
  wrapped consumer rejects with an error whose cause is a BigInt. The \<open>catch\<close> callback
  of the wrapped consumer appends the red line and then throws while it serialises the
  cause (line 271), so the promise it was to settle rejects, \<open>Promise.all\<close> rejects, and
  the \<open>then\<close> callback of lines 273-276 never runs: no panel receives the notice.
\<close>

theorem join_skips_notice_when_callback_throws:
  "snd (testWithoutWrapping sample_result) = None \<and>
   snd (testWithWrapping (failing_result (Error ''nope'' (Some (JBigInt 7)))))
     = Some (Error ''nope'' (Some (JBigInt 7))) \<and>
   rightTask (failing_result (Error ''nope'' (Some (JBigInt 7)))) =
     ([LogRight (''{yellow-fg}Starting test (wrappedStreamText)...{/yellow-fg}'' @ [CHR 0x0A]),
       LogRight ''{red-fg}Error: nope{/red-fg}''],
      Some (Error ''Do not know how to serialize a BigInt'' None)) \<and>
   main [] sample_result (failing_result (Error ''nope'' (Some (JBigInt 7)))) (init_state 24)
     = None"
  by (simp add: main_def leftTask_def rightTask_def catch_with_def onRejected_def logged_def
        failing_right sample_left stringify_bigint)

subsection \<open>The greeting tool in the stream\<close>

text \<open>
  Claim C9 (four status objects). For every name, the generator yields exactly four
  objects, with status starting, processing, generating and done in this order, the
  last one carrying the greeting. In the stream the SDK builds from a tool execution
  these four objects are four parts, one for each and in the same order. When the four
  parts can be formatted, the consumer appends one block (header, formatted part, empty
  line) per part to its panel, in that order, between the log lines of the tool.
\<close>

theorem greeting_tool_events:
  "yields (execute logFn name) =
     [JObj [(''status'', JStr ''starting''), (''message'', JStr ''Preparing greeting...'')],
      JObj [(''status'', JStr ''processing''),
            (''message'', JStr (''Looking up '' @ name @ ''...''))],
      JObj [(''status'', JStr ''generating''), (''message'', JStr ''Generating greeting...'')],
      JObj [(''status'', JStr ''done''), (''greeting'', JStr (''Hello, '' @ name @ ''!''))]] \<and>
   stream_parts (tool_stream toolPart (createGreetingTool ToolLog) name) =
     [toolPart (JObj [(''status'', JStr ''starting''),
                      (''message'', JStr ''Preparing greeting...'')]),
      toolPart (JObj [(''status'', JStr ''processing''),
                      (''message'', JStr (''Looking up '' @ name @ ''...''))]),
      toolPart (JObj [(''status'', JStr ''generating''),
                      (''message'', JStr ''Generating greeting...'')]),
      toolPart (JObj [(''status'', JStr ''done''),
                      (''greeting'', JStr (''Hello, '' @ name @ ''!''))])] \<and>
   (formatPart (toolPart (JObj [(''status'', JStr ''starting''),
                                (''message'', JStr ''Preparing greeting...'')])) = Inr t1 \<and>
    formatPart (toolPart (JObj [(''status'', JStr ''processing''),
                                (''message'', JStr (''Looking up '' @ name @ ''...''))])) = Inr t2 \<and>
    formatPart (toolPart (JObj [(''status'', JStr ''generating''),
                                (''message'', JStr ''Generating greeting...'')])) = Inr t3 \<and>
    formatPart (toolPart (JObj [(''status'', JStr ''done''),
                                (''greeting'', JStr (''Hello, '' @ name @ ''!''))])) = Inr t4 \<longrightarrow>
      forAwait panelLog
         \<lparr>fullStream = tool_stream toolPart (createGreetingTool ToolLog) name,
          streamError = None, resultText = x, toolCalls = y, toolResults = z\<rparr> =
        ([panelLog (''[execute] Starting generator for: '' @ name),
          panelLog ''{cyan-fg}Part:{/cyan-fg}'', panelLog t1, panelLog [],
          panelLog ''[execute] Yielded starting status'',
          panelLog ''{cyan-fg}Part:{/cyan-fg}'', panelLog t2, panelLog [],
          panelLog ''[execute] Yielded processing status'',
          panelLog ''{cyan-fg}Part:{/cyan-fg}'', panelLog t3, panelLog [],
          panelLog ''[execute] Yielded generating status'',
          panelLog ''[execute] Returning final result'',
          panelLog ''{cyan-fg}Part:{/cyan-fg}'', panelLog t4, panelLog []], None))"
  by (simp add: execute_def tool_stream_def createGreetingTool_def forAwait_def logged_def)

theorem greeting_tool_events_witness:
  "stream_parts (tool_stream sample_toolPart (createGreetingTool ToolLog) ''World'') =
     [JObj [(''type'', JStr ''tool-result''),
            (''output'', JObj [(''status'', JStr ''starting''),
                               (''message'', JStr ''Preparing greeting...'')])],
      JObj [(''type'', JStr ''tool-result''),
            (''output'', JObj [(''status'', JStr ''processing''),
                               (''message'', JStr ''Looking up World...'')])],
      JObj [(''type'', JStr ''tool-result''),
            (''output'', JObj [(''status'', JStr ''generating''),
                               (''message'', JStr ''Generating greeting...'')])],
      JObj [(''type'', JStr ''tool-result''),
            (''output'', JObj [(''status'', JStr ''done''),
                               (''greeting'', JStr ''Hello, World!'')])]] \<and>
   snd (forAwait LogRight
          \<lparr>fullStream = tool_stream sample_toolPart (createGreetingTool ToolLog) ''World'',
           streamError = None, resultText = Inr [], toolCalls = Inr (JArr []),
           toolResults = Inr (JArr [])\<rparr>) = None \<and>
   length (fst (forAwait LogRight
          \<lparr>fullStream = tool_stream sample_toolPart (createGreetingTool ToolLog) ''World'',
           streamError = None, resultText = Inr [], toolCalls = Inr (JArr []),
           toolResults = Inr (JArr [])\<rparr>)) = 17"
proof -
  let ?o1 = "JObj [(''status'', JStr ''starting''), (''message'', JStr ''Preparing greeting...'')]"
  let ?o2 = "JObj [(''status'', JStr ''processing''), (''message'', JStr ''Looking up World...'')]"
  let ?o3 = "JObj [(''status'', JStr ''generating''), (''message'', JStr ''Generating greeting...'')]"
  let ?o4 = "JObj [(''status'', JStr ''done''), (''greeting'', JStr ''Hello, World!'')]"
  have h1: "formatPart (sample_toolPart ?o1) = Inr (projr (formatPart (sample_toolPart ?o1)))"
    and h2: "formatPart (sample_toolPart ?o2) = Inr (projr (formatPart (sample_toolPart ?o2)))"
    and h3: "formatPart (sample_toolPart ?o3) = Inr (projr (formatPart (sample_toolPart ?o3)))"
    and h4: "formatPart (sample_toolPart ?o4) = Inr (projr (formatPart (sample_toolPart ?o4)))"
    by (simp_all add: sample_toolPart_def formatPart_def JSON_stringify_def
          replacer_def member_def)
  note events =
    greeting_tool_events [of ToolLog "''World''" sample_toolPart
      "projr (formatPart (sample_toolPart ?o1))" "projr (formatPart (sample_toolPart ?o2))"
      "projr (formatPart (sample_toolPart ?o3))" "projr (formatPart (sample_toolPart ?o4))"
      LogRight "Inr []" "Inr (JArr [])" "Inr (JArr [])"]
  have parts:
    "stream_parts (tool_stream sample_toolPart (createGreetingTool ToolLog) ''World'') =
       [sample_toolPart ?o1, sample_toolPart ?o2, sample_toolPart ?o3, sample_toolPart ?o4]"
    using events by simp
  have "\<exists>effs. forAwait LogRight
          \<lparr>fullStream = tool_stream sample_toolPart (createGreetingTool ToolLog) ''World'',
           streamError = None, resultText = Inr [], toolCalls = Inr (JArr []),
           toolResults = Inr (JArr [])\<rparr> = (effs, None) \<and> length effs = 17"
    using events h1 h2 h3 h4 by simp
  with parts show ?thesis by (auto simp: sample_toolPart_def)
qed

end
